theory Spec2Isabelle
  imports Complex_Main
begin

section \<open>Python values, exceptions and keyword calls\<close>

text \<open>
  The module under verification is
  \<^verbatim>\<open>src/ember/core/registry/model/core/modules/lm_modules.py\<close>.
  Its run-time values are Python values. A \<^verbatim>\<open>float\<close> is modelled by the real number
  it denotes (NaN and the infinities are outside the model), an \<^verbatim>\<open>int\<close> by an
  unbounded integer, and a \<^verbatim>\<open>str\<close> by a list of 8-bit characters read as code points
  (code points above 255 are outside the model). \<open>PObj\<close> is a reference to an object
  of some other class, identified by its allocation number.
\<close>

datatype pyval =
    PNone
  | PBool bool
  | PInt int
  | PFloat real
  | PStr string
  | PObj nat

text \<open>A \<^verbatim>\<open>**kwargs\<close> dictionary: insertion-ordered, keys are parameter names.\<close>

type_synonym kwargs = "(string \<times> pyval) list"

text \<open>
  Every exception that the modelled code can raise. \<open>Raised\<close> carries whatever an
  external collaborator (the model service) raises.
\<close>

datatype pyexc =
    TypeError_multiple_values string
  | TypeError_unexpected_keyword string
  | TypeError_too_many_positional nat nat
  | TypeError_missing_arguments "string list"
  | ValidationError string string
  | AttributeError string
  | Raised pyval

text \<open>\<^verbatim>\<open>d.get(key, default)\<close>\<close>

definition dict_get :: "kwargs \<Rightarrow> string \<Rightarrow> pyval \<Rightarrow> pyval" where
  "dict_get d key dflt = (case map_of d key of Some v \<Rightarrow> v | None \<Rightarrow> dflt)"

text \<open>
  A call \<^verbatim>\<open>f(k1=v1, ..., kn=vn, **kwargs)\<close>: the interpreter first collects the
  explicit keywords and then merges the starred mapping into them, key by key, in the
  mapping's order; a key that is already present raises
  \<^verbatim>\<open>TypeError: f() got multiple values for keyword argument 'k'\<close>,
  and the callee is never entered.
\<close>

fun dict_merge :: "kwargs \<Rightarrow> kwargs \<Rightarrow> pyexc + kwargs" where
  "dict_merge acc [] = Inr acc"
| "dict_merge acc ((k, v) # rest) =
     (if k \<in> set (map fst acc) then Inl (TypeError_multiple_values k)
      else dict_merge (acc @ [(k, v)]) rest)"

definition keyword_call_args :: "kwargs \<Rightarrow> kwargs \<Rightarrow> pyexc + kwargs" where
  "keyword_call_args explicit starred = dict_merge explicit starred"

text \<open>
  Binding the arguments of a call to a function whose parameters are all
  positional-or-keyword and have no defaults. The interpreter copies the positional
  arguments, then places each keyword (a parameter already filled, or an unknown
  name, is a \<^verbatim>\<open>TypeError\<close>), then rejects surplus positional arguments, and last
  reports every parameter left unfilled in one \<^verbatim>\<open>TypeError\<close>.
\<close>

fun bind_keywords :: "string list \<Rightarrow> nat \<Rightarrow> kwargs \<Rightarrow> kwargs \<Rightarrow> pyexc + kwargs" where
  "bind_keywords params npos seen [] = Inr seen"
| "bind_keywords params npos seen ((k, v) # rest) =
     (if k \<notin> set params then Inl (TypeError_unexpected_keyword k)
      else if k \<in> set (take npos params) \<or> k \<in> set (map fst seen)
        then Inl (TypeError_multiple_values k)
      else bind_keywords params npos (seen @ [(k, v)]) rest)"

definition bind_arguments :: "string list \<Rightarrow> pyval list \<Rightarrow> kwargs \<Rightarrow> pyexc + pyval list" where
  "bind_arguments params args kw =
     (case bind_keywords params (length args) [] kw of
        Inl e \<Rightarrow> Inl e
      | Inr bound \<Rightarrow>
          if length params < length args
            then Inl (TypeError_too_many_positional (length params) (length args))
          else
            (case filter (\<lambda>p. p \<notin> set (map fst bound)) (drop (length args) params) of
               [] \<Rightarrow> Inr (args @ map (\<lambda>p. dict_get bound p PNone) (drop (length args) params))
             | m # ms \<Rightarrow> Inl (TypeError_missing_arguments (m # ms))))"

section \<open>Python string operations\<close>

text \<open>
  \<^verbatim>\<open>str.isspace\<close> on one character, for the code points below 256: TAB, LF, VT, FF,
  CR, the separators FS, GS, RS, US, the space, NEL and the no-break space.
\<close>

definition py_isspace :: "char \<Rightarrow> bool" where
  "py_isspace c = ((of_char c :: nat) \<in> set [9, 10, 11, 12, 13, 28, 29, 30, 31, 32, 133, 160])"

definition py_lstrip :: "string \<Rightarrow> string" where
  "py_lstrip s = dropWhile py_isspace s"

definition py_rstrip :: "string \<Rightarrow> string" where
  "py_rstrip s = rev (dropWhile py_isspace (rev s))"

text \<open>\<^verbatim>\<open>s.strip()\<close>\<close>

definition py_strip :: "string \<Rightarrow> string" where
  "py_strip s = py_rstrip (py_lstrip s)"

text \<open>\<^verbatim>\<open>sep.join(xs)\<close>\<close>

fun py_join :: "string \<Rightarrow> string list \<Rightarrow> string" where
  "py_join sep [] = []"
| "py_join sep [x] = x"
| "py_join sep (x # y # ys) = x @ sep @ py_join sep (y # ys)"

text \<open>Truth value of an \<^verbatim>\<open>Optional[str]\<close>: \<^verbatim>\<open>None\<close> and the empty string are false.\<close>

fun truthy_str :: "string option \<Rightarrow> bool" where
  "truthy_str None = False"
| "truthy_str (Some s) = (s \<noteq> [])"

section \<open>LMModuleConfig\<close>

record LMModuleConfig =
  model_id :: string
  temperature :: real
  max_tokens :: "int option"
  cot_prompt :: "string option"
  persona :: "string option"

text \<open>
  The declaration \<^verbatim>\<open>Field(default=..., ge=..., le=...)\<close> of a float field. The
  validation library is not part of the repository; a field's bounds are read as the
  declaration names them: \<^verbatim>\<open>ge\<close> is "greater than or equal", \<^verbatim>\<open>le\<close> is "less than
  or equal". Defaults are not validated.
\<close>

record float_field =
  fld_default :: real
  fld_ge :: "real option"
  fld_le :: "real option"

definition temperature_field :: float_field where
  "temperature_field = \<lparr>fld_default = 1.0, fld_ge = Some 0.0, fld_le = Some 5.0\<rparr>"

definition validate_float :: "string \<Rightarrow> float_field \<Rightarrow> real \<Rightarrow> pyexc + real" where
  "validate_float name fld x =
     (if (case fld_ge fld of Some b \<Rightarrow> x < b | None \<Rightarrow> False)
        then Inl (ValidationError name ''greater_than_equal'')
      else if (case fld_le fld of Some b \<Rightarrow> b < x | None \<Rightarrow> False)
        then Inl (ValidationError name ''less_than_equal'')
      else Inr x)"

text \<open>
  \<^verbatim>\<open>LMModuleConfig(model_id=..., temperature=..., max_tokens=..., cot_prompt=...,
  persona=...)\<close>. Each argument may be omitted (\<open>None\<close> at the outer level), and then
  the field takes its declared default.
\<close>

definition LMModuleConfig_new ::
  "string option \<Rightarrow> real option \<Rightarrow> int option option \<Rightarrow> string option option \<Rightarrow>
   string option option \<Rightarrow> pyexc + LMModuleConfig" where
  "LMModuleConfig_new model_id_arg temperature_arg max_tokens_arg cot_prompt_arg persona_arg =
     (case (case temperature_arg of
              None \<Rightarrow> Inr (fld_default temperature_field)
            | Some t \<Rightarrow> validate_float ''temperature'' temperature_field t) of
        Inl e \<Rightarrow> Inl e
      | Inr t \<Rightarrow>
          Inr \<lparr>model_id = (case model_id_arg of None \<Rightarrow> ''openai:gpt-4o'' | Some m \<Rightarrow> m),
               temperature = t,
               max_tokens = (case max_tokens_arg of None \<Rightarrow> None | Some n \<Rightarrow> n),
               cot_prompt = (case cot_prompt_arg of None \<Rightarrow> None | Some c \<Rightarrow> c),
               persona = (case persona_arg of None \<Rightarrow> None | Some p \<Rightarrow> p)\<rparr>)"

section \<open>The default model service\<close>

text \<open>
  \<^verbatim>\<open>ModelService\<close>, \<^verbatim>\<open>UsageService\<close> and \<^verbatim>\<open>GLOBAL_MODEL_REGISTRY\<close> are imported by
  the module and are not part of the verified source. A \<^verbatim>\<open>ModelService\<close> is the pair
  of keyword arguments its constructor is given. The interpreter state holds the
  module-level global and the number of objects allocated so far;
  \<^verbatim>\<open>UsageService()\<close> allocates the next object.
\<close>

record ModelService =
  ms_registry :: pyval
  ms_usage_service :: pyval

record pystate =
  GLOBAL_MODEL_REGISTRY :: pyval
  allocated :: nat

definition UsageService_new :: "pystate \<Rightarrow> pyval \<times> pystate" where
  "UsageService_new s = (PObj (allocated s), s\<lparr>allocated := Suc (allocated s)\<rparr>)"

text \<open>An object that did not exist in state \<open>s\<close>: it was allocated later.\<close>

definition fresh_object :: "pystate \<Rightarrow> pyval \<Rightarrow> bool" where
  "fresh_object s v = (case v of PObj n \<Rightarrow> allocated s \<le> n | _ \<Rightarrow> False)"

text \<open>The body of \<^verbatim>\<open>get_default_model_service(registry, usage_service)\<close>.\<close>

definition get_default_model_service ::
  "pyval \<Rightarrow> pyval \<Rightarrow> pystate \<Rightarrow> ModelService \<times> pystate" where
  "get_default_model_service registry usage_service s =
     (let registry' = GLOBAL_MODEL_REGISTRY s;
          (usage_service', s') = UsageService_new s
      in (\<lparr>ms_registry = registry', ms_usage_service = usage_service'\<rparr>, s'))"

text \<open>A call of \<^verbatim>\<open>get_default_model_service\<close> with the given arguments.\<close>

definition call_get_default_model_service ::
  "pyval list \<Rightarrow> kwargs \<Rightarrow> pystate \<Rightarrow> pyexc + (ModelService \<times> pystate)" where
  "call_get_default_model_service args kw s =
     (case bind_arguments [''registry'', ''usage_service''] args kw of
        Inl e \<Rightarrow> Inl e
      | Inr bound \<Rightarrow> Inr (get_default_model_service (bound ! 0) (bound ! 1) s))"

section \<open>LMModule\<close>

record LMModule =
  config :: LMModuleConfig
  model_service :: ModelService
  logger :: string

text \<open>
  The instance while \<^verbatim>\<open>__init__\<close> runs: an attribute is \<open>None\<close> until it is
  assigned.
\<close>

record LMModule_attrs =
  attr_config :: "LMModuleConfig option"
  attr_model_service :: "ModelService option"
  attr_logger :: "string option"

definition blank_instance :: LMModule_attrs where
  "blank_instance = \<lparr>attr_config = None, attr_model_service = None, attr_logger = None\<rparr>"

text \<open>
  \<^verbatim>\<open>LMModule.__init__(self, config, model_service=None)\<close>. The result is the
  exception raised, if any, the instance as the method leaves it, and the state.
\<close>

definition LMModule_init ::
  "LMModule_attrs \<Rightarrow> LMModuleConfig \<Rightarrow> ModelService option \<Rightarrow> pystate \<Rightarrow>
   pyexc option \<times> LMModule_attrs \<times> pystate" where
  "LMModule_init self config_arg model_service_arg s =
     (case (case model_service_arg of
              None \<Rightarrow> call_get_default_model_service [] [] s
            | Some ms \<Rightarrow> Inr (ms, s)) of
        Inl e \<Rightarrow> (Some e, self, s)
      | Inr (ms, s') \<Rightarrow>
          (None,
           self\<lparr>attr_config := Some config_arg,
                attr_model_service := Some ms,
                attr_logger := Some ''LMModule''\<rparr>,
           s'))"

text \<open>\<^verbatim>\<open>LMModule(config, model_service)\<close>: allocate a blank instance and initialise it.\<close>

definition LMModule_new ::
  "LMModuleConfig \<Rightarrow> ModelService option \<Rightarrow> pystate \<Rightarrow> (pyexc + LMModule) \<times> pystate" where
  "LMModule_new config_arg model_service_arg s =
     (case LMModule_init blank_instance config_arg model_service_arg s of
        (Some e, self, s') \<Rightarrow> (Inl e, s')
      | (None, self, s') \<Rightarrow>
          (case (attr_config self, attr_model_service self, attr_logger self) of
             (Some c, Some ms, Some l) \<Rightarrow>
               (Inr \<lparr>config = c, model_service = ms, logger = l\<rparr>, s')
           | _ \<Rightarrow> (Inl (AttributeError ''uninitialised''), s')))"

text \<open>\<^verbatim>\<open>LMModule._assemble_full_prompt(self, user_prompt)\<close>\<close>

definition assemble_full_prompt :: "LMModule \<Rightarrow> string \<Rightarrow> string" where
  "assemble_full_prompt self user_prompt =
     (let segments = [];
          segments =
            (if truthy_str (persona (config self))
               then (case persona (config self) of
                       Some p \<Rightarrow> segments @ [''[Persona: '' @ p @ '']\<newline>'']
                     | None \<Rightarrow> segments)
             else segments);
          segments = segments @ [py_strip user_prompt];
          segments =
            (if truthy_str (cot_prompt (config self))
               then (case cot_prompt (config self) of
                       Some c \<Rightarrow>
                         segments @ [''\<newline>\<newline># Chain of Thought:\<newline>'' @ py_strip c]
                     | None \<Rightarrow> segments)
             else segments)
      in py_strip (py_join ''\<newline>'' segments))"

text \<open>
  A response of the model service: the attributes that \<^verbatim>\<open>hasattr\<close> and attribute
  access see, and the text that \<^verbatim>\<open>str\<close> gives.
\<close>

record response =
  resp_attrs :: "(string \<times> pyval) list"
  resp_str :: string

definition hasattr :: "response \<Rightarrow> string \<Rightarrow> bool" where
  "hasattr r name = (map_of (resp_attrs r) name \<noteq> None)"

definition str_of :: "response \<Rightarrow> string" where
  "str_of r = resp_str r"

text \<open>
  \<^verbatim>\<open>ModelService.invoke_model\<close> is not part of the verified source: it is a
  parameter. It receives the service, the keyword arguments of the call and the state
  of the world \<open>'w\<close> it acts on, and returns a response or raises.
\<close>

type_synonym 'w invoke_model = "ModelService \<Rightarrow> kwargs \<Rightarrow> 'w \<Rightarrow> (pyexc + response) \<times> 'w"

definition max_tokens_val :: "int option \<Rightarrow> pyval" where
  "max_tokens_val m = (case m of None \<Rightarrow> PNone | Some n \<Rightarrow> PInt n)"

text \<open>
  \<^verbatim>\<open>LMModule.forward(self, prompt, **kwargs)\<close>. The call of
  \<^verbatim>\<open>invoke_model\<close> names four keywords explicitly (\<open>invoke_model_keywords\<close>)
  and then passes \<^verbatim>\<open>**kwargs\<close>. The result of \<open>forward\<close> is the value returned
  or the exception raised, the module after the call, and the world after the call.
\<close>

definition invoke_model_keywords :: "LMModule \<Rightarrow> string \<Rightarrow> kwargs \<Rightarrow> kwargs" where
  "invoke_model_keywords self final_prompt kwargs =
     [(''model_id'', PStr (model_id (config self))),
      (''prompt'', PStr final_prompt),
      (''temperature'', dict_get kwargs ''temperature'' (PFloat (temperature (config self)))),
      (''max_tokens'', dict_get kwargs ''max_tokens'' (max_tokens_val (max_tokens (config self))))]"

definition forward ::
  "'w invoke_model \<Rightarrow> LMModule \<Rightarrow> string \<Rightarrow> kwargs \<Rightarrow> 'w \<Rightarrow> (pyexc + pyval) \<times> LMModule \<times> 'w" where
  "forward invoke_model self prompt kwargs w =
     (let final_prompt = assemble_full_prompt self prompt in
      case keyword_call_args (invoke_model_keywords self final_prompt kwargs) kwargs of
        Inl e \<Rightarrow> (Inl e, self, w)
      | Inr call_args \<Rightarrow>
          (case invoke_model (model_service self) call_args w of
             (Inl e, w') \<Rightarrow> (Inl e, self, w')
           | (Inr resp, w') \<Rightarrow>
               (Inr (if hasattr resp ''data''
                       then dict_get (resp_attrs resp) ''data'' PNone
                     else PStr (str_of resp)),
                self, w')))"

text \<open>
  \<^verbatim>\<open>LMModule.__call__(self, prompt, **kwargs)\<close> is
  \<^verbatim>\<open>return self.forward(prompt=prompt, **kwargs)\<close>: the keyword \<^verbatim>\<open>prompt\<close> and the
  starred dictionary are merged, and \<^verbatim>\<open>forward\<close> binds \<^verbatim>\<open>prompt\<close> to its own
  parameter and the rest to its \<^verbatim>\<open>kwargs\<close>.
\<close>

definition LMModule_call ::
  "'w invoke_model \<Rightarrow> LMModule \<Rightarrow> string \<Rightarrow> kwargs \<Rightarrow> 'w \<Rightarrow> (pyexc + pyval) \<times> LMModule \<times> 'w" where
  "LMModule_call invoke_model self prompt kwargs w =
     (case keyword_call_args [(''prompt'', PStr prompt)] kwargs of
        Inl e \<Rightarrow> (Inl e, self, w)
      | Inr forward_keywords \<Rightarrow> forward invoke_model self prompt kwargs w)"

text \<open>
  The dictionaries that \<^verbatim>\<open>forward\<close> and \<^verbatim>\<open>__call__\<close> can receive as \<^verbatim>\<open>**kwargs\<close>:
  a dictionary holds each key once, and the names \<^verbatim>\<open>self\<close> and \<^verbatim>\<open>prompt\<close> are those
  of the methods' own parameters: a keyword with one of these names is bound to that
  parameter, or raises \<^verbatim>\<open>TypeError\<close> at the call when the parameter is already
  filled, so neither name ever reaches \<^verbatim>\<open>kwargs\<close>.
\<close>

definition kwargs_of_forward :: "kwargs \<Rightarrow> bool" where
  "kwargs_of_forward kwargs =
     (distinct (map fst kwargs) \<and>
      ''self'' \<notin> set (map fst kwargs) \<and>
      ''prompt'' \<notin> set (map fst kwargs))"

section \<open>Fixtures for concrete runs\<close>

text \<open>
  A model service that appends the keyword arguments of each call to a log and answers
  with a fixed response. With it, the log after a run shows whether, and with which
  arguments, \<^verbatim>\<open>invoke_model\<close> was invoked.
\<close>

definition recording_service :: "response \<Rightarrow> (kwargs list) invoke_model" where
  "recording_service resp ms call_args calls = (Inr resp, calls @ [call_args])"

definition demo_service :: ModelService where
  "demo_service = \<lparr>ms_registry = PObj 0, ms_usage_service = PObj 1\<rparr>"

definition demo_config :: LMModuleConfig where
  "demo_config =
     \<lparr>model_id = ''openai:gpt-4o'', temperature = 1.0, max_tokens = None,
      cot_prompt = None, persona = None\<rparr>"

definition demo_module :: LMModule where
  "demo_module = \<lparr>config = demo_config, model_service = demo_service, logger = ''LMModule''\<rparr>"

definition structured_response :: response where
  "structured_response = \<lparr>resp_attrs = [(''data'', PStr ''4''), (''usage'', PNone)], resp_str = ''ChatResponse''\<rparr>"

definition plain_response :: response where
  "plain_response = \<lparr>resp_attrs = [], resp_str = ''Echo: hi''\<rparr>"

section \<open>Properties of the string operations\<close>

text \<open>
  \<open>py_strip\<close> removes a run of whitespace at each end and nothing else, its result
  neither starts nor ends with whitespace, and stripping twice is stripping once.
\<close>

lemma py_rstrip_prefix: "\<exists>suf. s = py_rstrip s @ suf \<and> (\<forall>c \<in> set suf. py_isspace c)"
proof -
  have "rev s = takeWhile py_isspace (rev s) @ dropWhile py_isspace (rev s)" by simp
  then have "s = rev (dropWhile py_isspace (rev s)) @ rev (takeWhile py_isspace (rev s))"
    by (metis rev_append rev_rev_ident)
  moreover have "\<forall>c \<in> set (rev (takeWhile py_isspace (rev s))). py_isspace c"
    by (auto dest: set_takeWhileD)
  ultimately show ?thesis unfolding py_rstrip_def by blast
qed

lemma py_lstrip_suffix: "\<exists>pre. s = pre @ py_lstrip s \<and> (\<forall>c \<in> set pre. py_isspace c)"
proof -
  have "s = takeWhile py_isspace s @ dropWhile py_isspace s" by simp
  moreover have "\<forall>c \<in> set (takeWhile py_isspace s). py_isspace c"
    by (auto dest: set_takeWhileD)
  ultimately show ?thesis unfolding py_lstrip_def by blast
qed

lemma py_lstrip_head: "py_lstrip s \<noteq> [] \<Longrightarrow> \<not> py_isspace (hd (py_lstrip s))"
  unfolding py_lstrip_def by (simp add: hd_dropWhile)

lemma py_rstrip_last: "py_rstrip s \<noteq> [] \<Longrightarrow> \<not> py_isspace (last (py_rstrip s))"
  unfolding py_rstrip_def by (simp add: last_rev hd_dropWhile)

lemma py_rstrip_idem: "py_rstrip (py_rstrip s) = py_rstrip s"
  unfolding py_rstrip_def by simp

lemma py_lstrip_fixed: "s = [] \<or> \<not> py_isspace (hd s) \<Longrightarrow> py_lstrip s = s"
  unfolding py_lstrip_def by (cases s) auto

lemma py_rstrip_head: "py_rstrip s \<noteq> [] \<Longrightarrow> hd (py_rstrip s) = hd s"
proof -
  assume ne: "py_rstrip s \<noteq> []"
  obtain suf where "s = py_rstrip s @ suf" using py_rstrip_prefix by blast
  then have "hd s = hd (py_rstrip s @ suf)" by simp
  with ne show ?thesis by simp
qed

lemma py_lstrip_strip: "py_lstrip (py_strip s) = py_strip s"
proof (cases "py_strip s = []")
  case True
  then show ?thesis by (simp add: py_lstrip_def)
next
  case False
  then have ne: "py_rstrip (py_lstrip s) \<noteq> []" by (simp add: py_strip_def)
  then have "py_lstrip s \<noteq> []" by (auto simp: py_rstrip_def)
  then have "\<not> py_isspace (hd (py_lstrip s))" by (rule py_lstrip_head)
  with ne have "\<not> py_isspace (hd (py_strip s))"
    by (simp add: py_strip_def py_rstrip_head)
  then show ?thesis by (simp add: py_lstrip_fixed)
qed

lemma py_strip_idem: "py_strip (py_strip s) = py_strip s"
proof -
  have "py_strip (py_strip s) = py_rstrip (py_lstrip (py_strip s))" by (simp add: py_strip_def)
  also have "\<dots> = py_rstrip (py_strip s)" by (simp add: py_lstrip_strip)
  also have "\<dots> = py_strip s" by (simp add: py_strip_def py_rstrip_idem)
  finally show ?thesis .
qed

lemma py_strip_decomp:
  "\<exists>pre suf. s = pre @ py_strip s @ suf \<and> (\<forall>c \<in> set pre. py_isspace c) \<and> (\<forall>c \<in> set suf. py_isspace c)"
proof -
  obtain pre where p: "s = pre @ py_lstrip s" "\<forall>c \<in> set pre. py_isspace c"
    using py_lstrip_suffix by blast
  obtain suf where q: "py_lstrip s = py_rstrip (py_lstrip s) @ suf" "\<forall>c \<in> set suf. py_isspace c"
    using py_rstrip_prefix by blast
  from p(1) q(1) have "s = pre @ py_strip s @ suf" by (simp add: py_strip_def)
  with p(2) q(2) show ?thesis by blast
qed

lemma py_strip_ends:
  "py_strip s \<noteq> [] \<Longrightarrow> \<not> py_isspace (hd (py_strip s)) \<and> \<not> py_isspace (last (py_strip s))"
proof -
  assume ne: "py_strip s \<noteq> []"
  then have a: "py_rstrip (py_lstrip s) \<noteq> []" by (simp add: py_strip_def)
  then have b: "py_lstrip s \<noteq> []" by (auto simp: py_rstrip_def)
  have "hd (py_strip s) = hd (py_lstrip s)" using a by (simp add: py_strip_def py_rstrip_head)
  moreover have "\<not> py_isspace (hd (py_lstrip s))" using b by (rule py_lstrip_head)
  moreover have "\<not> py_isspace (last (py_strip s))" using a by (simp add: py_strip_def py_rstrip_last)
  ultimately show ?thesis by simp
qed

section \<open>Properties of keyword merging\<close>

text \<open>
  Merging a starred dictionary whose keys are all new appends it; a key that repeats
  an explicit keyword makes the call raise.
\<close>

lemma dict_merge_disjoint:
  "distinct (map fst kw) \<Longrightarrow> set (map fst acc) \<inter> set (map fst kw) = {} \<Longrightarrow>
   dict_merge acc kw = Inr (acc @ kw)"
proof (induction kw arbitrary: acc)
  case Nil
  then show ?case by simp
next
  case (Cons a kw)
  obtain k v where a: "a = (k, v)" by (cases a)
  from Cons.prems a have nk: "k \<notin> set (map fst acc)" by auto
  from Cons.prems a have d: "distinct (map fst kw)" by simp
  from Cons.prems a have "set (map fst (acc @ [(k, v)])) \<inter> set (map fst kw) = {}" by auto
  with d have "dict_merge (acc @ [(k, v)]) kw = Inr ((acc @ [(k, v)]) @ kw)" by (rule Cons.IH)
  with nk a show ?case by simp
qed

lemma dict_merge_collision:
  "k \<in> set (map fst kw) \<Longrightarrow> k \<in> set (map fst acc) \<Longrightarrow>
   \<exists>k'. dict_merge acc kw = Inl (TypeError_multiple_values k')"
proof (induction kw arbitrary: acc)
  case Nil
  then show ?case by simp
next
  case (Cons a kw)
  obtain k0 v where a: "a = (k0, v)" by (cases a)
  show ?case
  proof (cases "k0 \<in> set (map fst acc)")
    case True
    with a show ?thesis by simp
  next
    case False
    with Cons.prems a have "k \<in> set (map fst kw)" by auto
    moreover from Cons.prems have "k \<in> set (map fst (acc @ [(k0, v)]))" by simp
    ultimately have "\<exists>k'. dict_merge (acc @ [(k0, v)]) kw = Inl (TypeError_multiple_values k')"
      by (rule Cons.IH)
    with False a show ?thesis by simp
  qed
qed

lemmas strip_eval = py_strip_def py_lstrip_def py_rstrip_def py_isspace_def

lemmas demo_defs = demo_module_def demo_config_def demo_service_def

lemma demo_module_config:
  "model_id (config demo_module) = ''openai:gpt-4o''"
  "temperature (config demo_module) = 1.0"
  "max_tokens (config demo_module) = None"
  "cot_prompt (config demo_module) = None"
  "persona (config demo_module) = None"
  by (simp_all add: demo_defs)

lemma forward_rejects_explicit_keyword:
  assumes "k \<in> {''model_id'', ''prompt'', ''temperature'', ''max_tokens''}"
    and "k \<in> set (map fst kwargs)"
  shows "\<exists>k'. forward invoke_model self prompt kwargs w
           = (Inl (TypeError_multiple_values k'), self, w)"
proof -
  let ?explicit = "invoke_model_keywords self (assemble_full_prompt self prompt) kwargs"
  from assms(1) have "k \<in> set (map fst ?explicit)"
    by (auto simp: invoke_model_keywords_def)
  with assms(2) obtain k' where "dict_merge ?explicit kwargs = Inl (TypeError_multiple_values k')"
    using dict_merge_collision by blast
  then show ?thesis by (simp add: forward_def keyword_call_args_def)
qed

section \<open>Prompt assembly\<close>

text \<open>
  C1, as stated, does not hold: with persona \<^verbatim>\<open>Helper\<close>, chain-of-thought
  \<^verbatim>\<open>Think step by step\<close> and prompt \<^verbatim>\<open>What is 2+2?\<close>, the assembled string is not
  the one with single line breaks. The persona segment already ends in a line break
  and the chain-of-thought segment already starts with two, and the join adds one
  more between neighbouring segments.
\<close>

theorem assemble_full_prompt_single_newline_refuted:
  "assemble_full_prompt
     (demo_module\<lparr>config := demo_config\<lparr>persona := Some ''Helper'',
                                           cot_prompt := Some ''Think step by step''\<rparr>\<rparr>)
     ''What is 2+2?''
   \<noteq> ''[Persona: Helper]\<newline>What is 2+2?\<newline>\<newline># Chain of Thought:\<newline>Think step by step''"
  by (simp add: assemble_full_prompt_def strip_eval demo_defs)

text \<open>
  C1 (amended): for every module whose config has persona \<^verbatim>\<open>Helper\<close> and
  chain-of-thought \<^verbatim>\<open>Think step by step\<close>, assembling the prompt \<^verbatim>\<open>What is 2+2?\<close>
  yields the persona header, an empty line, the prompt, two empty lines, the
  chain-of-thought header and the chain-of-thought text.
\<close>

theorem assemble_full_prompt_persona_cot_example:
  "assemble_full_prompt
     (self\<lparr>config := (config self)\<lparr>persona := Some ''Helper'',
                                      cot_prompt := Some ''Think step by step''\<rparr>\<rparr>)
     ''What is 2+2?''
   = ''[Persona: Helper]\<newline>\<newline>What is 2+2?\<newline>\<newline>\<newline># Chain of Thought:\<newline>Think step by step''"
  by (simp add: assemble_full_prompt_def strip_eval)

text \<open>
  C4: with no persona and no chain-of-thought prompt, the assembled prompt is the user
  prompt stripped: the user prompt is the result with whitespace only before and after
  it, and a non-empty result neither starts nor ends with whitespace.
\<close>

theorem assemble_full_prompt_plain:
  assumes "persona (config self) = None" and "cot_prompt (config self) = None"
  shows "assemble_full_prompt self user_prompt = py_strip user_prompt \<and>
         (\<exists>pre suf. user_prompt = pre @ assemble_full_prompt self user_prompt @ suf \<and>
            (\<forall>c \<in> set pre. py_isspace c) \<and> (\<forall>c \<in> set suf. py_isspace c)) \<and>
         (assemble_full_prompt self user_prompt \<noteq> [] \<longrightarrow>
            \<not> py_isspace (hd (assemble_full_prompt self user_prompt)) \<and>
            \<not> py_isspace (last (assemble_full_prompt self user_prompt)))"
proof -
  from assms have eq: "assemble_full_prompt self user_prompt = py_strip user_prompt"
    by (simp add: assemble_full_prompt_def py_strip_idem)
  show ?thesis
    unfolding eq using py_strip_decomp [of user_prompt] py_strip_ends [of user_prompt] by blast
qed

text \<open>The hypotheses of C4 hold for the default config; inner whitespace is kept.\<close>

theorem assemble_full_prompt_plain_witness:
  "persona (config demo_module) = None \<and> cot_prompt (config demo_module) = None \<and>
   assemble_full_prompt demo_module '' \<newline> What is  2+2? \<newline>'' = ''What is  2+2?''"
proof -
  have a: "persona (config demo_module) = None" by (simp add: demo_defs)
  have b: "cot_prompt (config demo_module) = None" by (simp add: demo_defs)
  have "py_strip '' \<newline> What is  2+2? \<newline>'' = ''What is  2+2?''" by (simp add: strip_eval)
  with a b assemble_full_prompt_plain [OF a b, of "'' \<newline> What is  2+2? \<newline>''"]
  show ?thesis by simp
qed

text \<open>
  C10: an empty persona is assembled exactly as an absent persona, and an empty
  chain-of-thought prompt exactly as an absent one, whatever the rest of the config and
  the user prompt are. The output is spelled out: with both empty or absent it is the
  stripped user prompt alone; with an empty persona and a non-empty chain-of-thought
  prompt the joined segments are the stripped user prompt and the chain-of-thought
  section, with no persona header segment before them; with an empty chain-of-thought
  prompt and a non-empty persona they are the persona header and the stripped user
  prompt, with no chain-of-thought segment after them.
\<close>

theorem assemble_full_prompt_empty_is_absent:
  "assemble_full_prompt (self\<lparr>config := (config self)\<lparr>persona := Some []\<rparr>\<rparr>) user_prompt
     = assemble_full_prompt (self\<lparr>config := (config self)\<lparr>persona := None\<rparr>\<rparr>) user_prompt \<and>
   assemble_full_prompt (self\<lparr>config := (config self)\<lparr>cot_prompt := Some []\<rparr>\<rparr>) user_prompt
     = assemble_full_prompt (self\<lparr>config := (config self)\<lparr>cot_prompt := None\<rparr>\<rparr>) user_prompt \<and>
   assemble_full_prompt
       (self\<lparr>config := (config self)\<lparr>persona := Some [], cot_prompt := Some []\<rparr>\<rparr>) user_prompt
     = py_strip user_prompt \<and>
   assemble_full_prompt
       (self\<lparr>config := (config self)\<lparr>persona := Some [], cot_prompt := None\<rparr>\<rparr>) user_prompt
     = py_strip user_prompt \<and>
   assemble_full_prompt
       (self\<lparr>config := (config self)\<lparr>persona := None, cot_prompt := Some []\<rparr>\<rparr>) user_prompt
     = py_strip user_prompt \<and>
   assemble_full_prompt
       (self\<lparr>config := (config self)\<lparr>persona := Some [], cot_prompt := Some (c # cs)\<rparr>\<rparr>)
       user_prompt
     = py_strip (py_join ''\<newline>''
         [py_strip user_prompt, ''\<newline>\<newline># Chain of Thought:\<newline>'' @ py_strip (c # cs)]) \<and>
   assemble_full_prompt
       (self\<lparr>config := (config self)\<lparr>persona := None, cot_prompt := Some (c # cs)\<rparr>\<rparr>)
       user_prompt
     = py_strip (py_join ''\<newline>''
         [py_strip user_prompt, ''\<newline>\<newline># Chain of Thought:\<newline>'' @ py_strip (c # cs)]) \<and>
   assemble_full_prompt
       (self\<lparr>config := (config self)\<lparr>persona := Some (p # ps), cot_prompt := Some []\<rparr>\<rparr>)
       user_prompt
     = py_strip (py_join ''\<newline>'' [''[Persona: '' @ (p # ps) @ '']\<newline>'', py_strip user_prompt]) \<and>
   assemble_full_prompt
       (self\<lparr>config := (config self)\<lparr>persona := Some (p # ps), cot_prompt := None\<rparr>\<rparr>)
       user_prompt
     = py_strip (py_join ''\<newline>'' [''[Persona: '' @ (p # ps) @ '']\<newline>'', py_strip user_prompt])"
  by (simp add: assemble_full_prompt_def Let_def py_strip_idem)

text \<open>
  Runs with the empty strings: no \<^verbatim>\<open>[Persona: ]\<close> line and no chain-of-thought header
  appear, while a non-empty persona does put its header first.
\<close>

lemma assemble_full_prompt_empty_runs:
  "assemble_full_prompt
     (demo_module\<lparr>config := demo_config\<lparr>persona := Some [], cot_prompt := Some []\<rparr>\<rparr>) '' hi ''
   = ''hi''"
  "assemble_full_prompt
     (demo_module\<lparr>config := demo_config\<lparr>persona := Some [], cot_prompt := Some ''Think''\<rparr>\<rparr>) '' hi ''
   = ''hi\<newline>\<newline>\<newline># Chain of Thought:\<newline>Think''"
  "assemble_full_prompt
     (demo_module\<lparr>config := demo_config\<lparr>persona := Some ''Helper'', cot_prompt := Some []\<rparr>\<rparr>) '' hi ''
   = ''[Persona: Helper]\<newline>\<newline>hi''"
  by (simp_all add: assemble_full_prompt_def strip_eval demo_defs)

section \<open>Generation: overrides, response and frame\<close>

text \<open>
  C2: the code at the claim's input. With a stored temperature of 1.0, the call
  \<^verbatim>\<open>forward(prompt, temperature=0.2)\<close> (and \<^verbatim>\<open>__call__\<close> likewise) raises
  \<^verbatim>\<open>TypeError\<close> for every model service: \<^verbatim>\<open>temperature\<close> is passed once as an
  explicit keyword and once more through \<^verbatim>\<open>**kwargs\<close>, so \<^verbatim>\<open>invoke_model\<close> is never
  entered and the world is left as it was.
\<close>

theorem forward_temperature_override_raises:
  "forward invoke_model (self\<lparr>config := (config self)\<lparr>temperature := 1.0\<rparr>\<rparr>) prompt
     [(''temperature'', PFloat 0.2)] w
   = (Inl (TypeError_multiple_values ''temperature''),
      self\<lparr>config := (config self)\<lparr>temperature := 1.0\<rparr>\<rparr>, w) \<and>
   LMModule_call invoke_model (self\<lparr>config := (config self)\<lparr>temperature := 1.0\<rparr>\<rparr>) prompt
     [(''temperature'', PFloat 0.2)] w
   = (Inl (TypeError_multiple_values ''temperature''),
      self\<lparr>config := (config self)\<lparr>temperature := 1.0\<rparr>\<rparr>, w)"
  by (simp add: forward_def LMModule_call_def keyword_call_args_def invoke_model_keywords_def)

text \<open>
  C3, as stated, does not hold: a call without a \<^verbatim>\<open>temperature\<close> and without a
  \<^verbatim>\<open>max_tokens\<close> override, but with the keyword \<^verbatim>\<open>model_id\<close>, raises
  \<^verbatim>\<open>TypeError\<close>, and the recording service's list of calls stays empty:
  \<^verbatim>\<open>invoke_model\<close> was not invoked at all.
\<close>

theorem forward_defaults_model_id_keyword_refuted:
  "kwargs_of_forward [(''model_id'', PStr ''other'')] \<and>
   ''temperature'' \<notin> set (map fst [(''model_id'', PStr ''other'')]) \<and>
   ''max_tokens'' \<notin> set (map fst [(''model_id'', PStr ''other'')]) \<and>
   forward (recording_service structured_response) demo_module ''hi''
       [(''model_id'', PStr ''other'')] []
     = (Inl (TypeError_multiple_values ''model_id''), demo_module, [])"
  by (simp add: forward_def keyword_call_args_def invoke_model_keywords_def kwargs_of_forward_def)

text \<open>
  C3 (amended): for every module, prompt and model service, a call of
  \<^verbatim>\<open>forward\<close> or \<^verbatim>\<open>__call__\<close> whose \<^verbatim>\<open>**kwargs\<close> dictionary (each key once, and
  neither \<^verbatim>\<open>self\<close> nor \<^verbatim>\<open>prompt\<close>, the methods' own parameter names) contains none of
  \<^verbatim>\<open>temperature\<close>, \<^verbatim>\<open>max_tokens\<close> and \<^verbatim>\<open>model_id\<close> invokes \<^verbatim>\<open>invoke_model\<close> with the
  stored config's temperature and max_tokens (together with the stored model_id, the
  assembled prompt, and the call's other keyword arguments unchanged), and the outcome
  of the call is the outcome of that invocation.
\<close>

theorem forward_defaults_reach_invoke_model:
  assumes wf: "kwargs_of_forward kwargs"
    and t: "''temperature'' \<notin> set (map fst kwargs)"
    and m: "''max_tokens'' \<notin> set (map fst kwargs)"
    and i: "''model_id'' \<notin> set (map fst kwargs)"
  shows "forward invoke_model self prompt kwargs w =
    (case invoke_model (model_service self)
            ([(''model_id'', PStr (model_id (config self))),
              (''prompt'', PStr (assemble_full_prompt self prompt)),
              (''temperature'', PFloat (temperature (config self))),
              (''max_tokens'', max_tokens_val (max_tokens (config self)))] @ kwargs) w of
       (Inl e, w') \<Rightarrow> (Inl e, self, w')
     | (Inr resp, w') \<Rightarrow>
         (Inr (if hasattr resp ''data'' then dict_get (resp_attrs resp) ''data'' PNone
               else PStr (str_of resp)), self, w')) \<and>
    LMModule_call invoke_model self prompt kwargs w = forward invoke_model self prompt kwargs w"
proof -
  let ?fp = "assemble_full_prompt self prompt"
  from t have "map_of kwargs ''temperature'' = None" by (simp add: map_of_eq_None_iff)
  then have gt: "dict_get kwargs ''temperature'' (PFloat (temperature (config self)))
                 = PFloat (temperature (config self))"
    by (simp add: dict_get_def)
  from m have "map_of kwargs ''max_tokens'' = None" by (simp add: map_of_eq_None_iff)
  then have gm: "dict_get kwargs ''max_tokens'' (max_tokens_val (max_tokens (config self)))
                 = max_tokens_val (max_tokens (config self))"
    by (simp add: dict_get_def)
  have keys: "set (map fst (invoke_model_keywords self ?fp kwargs))
              = {''model_id'', ''prompt'', ''temperature'', ''max_tokens''}"
    by (simp add: invoke_model_keywords_def)
  from wf t m i have disj:
    "set (map fst (invoke_model_keywords self ?fp kwargs)) \<inter> set (map fst kwargs) = {}"
    unfolding keys kwargs_of_forward_def by auto
  from wf have d: "distinct (map fst kwargs)" by (simp add: kwargs_of_forward_def)
  have "keyword_call_args (invoke_model_keywords self ?fp kwargs) kwargs
        = Inr (invoke_model_keywords self ?fp kwargs @ kwargs)"
    unfolding keyword_call_args_def using d disj by (rule dict_merge_disjoint)
  then have fwd: "forward invoke_model self prompt kwargs w =
    (case invoke_model (model_service self)
            ([(''model_id'', PStr (model_id (config self))),
              (''prompt'', PStr (assemble_full_prompt self prompt)),
              (''temperature'', PFloat (temperature (config self))),
              (''max_tokens'', max_tokens_val (max_tokens (config self)))] @ kwargs) w of
       (Inl e, w') \<Rightarrow> (Inl e, self, w')
     | (Inr resp, w') \<Rightarrow>
         (Inr (if hasattr resp ''data'' then dict_get (resp_attrs resp) ''data'' PNone
               else PStr (str_of resp)), self, w'))"
    by (simp add: forward_def invoke_model_keywords_def gt gm)
  from wf have "set (map fst [(''prompt'', PStr prompt)]) \<inter> set (map fst kwargs) = {}"
    by (simp add: kwargs_of_forward_def)
  with d have "dict_merge [(''prompt'', PStr prompt)] kwargs = Inr ([(''prompt'', PStr prompt)] @ kwargs)"
    by (rule dict_merge_disjoint)
  then have "LMModule_call invoke_model self prompt kwargs w = forward invoke_model self prompt kwargs w"
    by (simp add: LMModule_call_def keyword_call_args_def)
  with fwd show ?thesis by simp
qed

text \<open>
  A run of the amended C3: with the provider-specific keyword \<^verbatim>\<open>top_p\<close> only, the
  recording service is invoked once, with the stored temperature 1.0 and the stored
  max_tokens \<^verbatim>\<open>None\<close>.
\<close>

theorem forward_defaults_reach_invoke_model_witness:
  "kwargs_of_forward [(''top_p'', PFloat 0.9)] \<and>
   ''temperature'' \<notin> set (map fst [(''top_p'', PFloat 0.9)]) \<and>
   ''max_tokens'' \<notin> set (map fst [(''top_p'', PFloat 0.9)]) \<and>
   ''model_id'' \<notin> set (map fst [(''top_p'', PFloat 0.9)]) \<and>
   forward (recording_service structured_response) demo_module ''  hi '' [(''top_p'', PFloat 0.9)] []
     = (Inr (PStr ''4''), demo_module,
        [[(''model_id'', PStr ''openai:gpt-4o''), (''prompt'', PStr ''hi''),
          (''temperature'', PFloat 1.0), (''max_tokens'', PNone), (''top_p'', PFloat 0.9)]])"
proof -
  have a: "kwargs_of_forward [(''top_p'', PFloat 0.9)]" by (simp add: kwargs_of_forward_def)
  have b: "''temperature'' \<notin> set (map fst [(''top_p'', PFloat 0.9)])" by simp
  have c: "''max_tokens'' \<notin> set (map fst [(''top_p'', PFloat 0.9)])" by simp
  have d: "''model_id'' \<notin> set (map fst [(''top_p'', PFloat 0.9)])" by simp
  have e: "assemble_full_prompt demo_module ''  hi '' = ''hi''"
    by (simp add: assemble_full_prompt_def strip_eval demo_defs)
  show ?thesis
    using a b c d
      forward_defaults_reach_invoke_model [OF a b c d,
        of "recording_service structured_response" demo_module "''  hi ''" "[]"]
    by (simp add: e demo_module_config recording_service_def structured_response_def
        hasattr_def dict_get_def max_tokens_val_def)
qed

text \<open>
  C6: for every model service, module, prompt and keyword arguments, the module after
  a call of \<^verbatim>\<open>forward\<close> or \<^verbatim>\<open>__call__\<close>, whether the call returned or raised, has the
  config it had before: \<^verbatim>\<open>model_id\<close>, \<^verbatim>\<open>temperature\<close>, \<^verbatim>\<open>max_tokens\<close>,
  \<^verbatim>\<open>cot_prompt\<close> and \<^verbatim>\<open>persona\<close> are unchanged.
\<close>

theorem forward_preserves_config:
  "config (fst (snd (forward invoke_model self prompt kwargs w))) = config self \<and>
   model_id (config (fst (snd (forward invoke_model self prompt kwargs w)))) = model_id (config self) \<and>
   temperature (config (fst (snd (forward invoke_model self prompt kwargs w)))) = temperature (config self) \<and>
   max_tokens (config (fst (snd (forward invoke_model self prompt kwargs w)))) = max_tokens (config self) \<and>
   cot_prompt (config (fst (snd (forward invoke_model self prompt kwargs w)))) = cot_prompt (config self) \<and>
   persona (config (fst (snd (forward invoke_model self prompt kwargs w)))) = persona (config self) \<and>
   config (fst (snd (LMModule_call invoke_model self prompt kwargs w))) = config self"
proof -
  have "fst (snd (forward invoke_model self prompt kwargs w)) = self"
    by (simp add: forward_def Let_def split: sum.splits prod.splits)
  then show ?thesis by (simp add: LMModule_call_def split: sum.splits)
qed

text \<open>
  C8: whenever the call of \<^verbatim>\<open>invoke_model\<close> made by \<^verbatim>\<open>forward\<close> returns a response,
  \<^verbatim>\<open>forward\<close> returns the response's \<^verbatim>\<open>data\<close> attribute if the response has one, and
  the string conversion of the response otherwise.
\<close>

theorem forward_returns_data_or_str:
  assumes call: "keyword_call_args
                   (invoke_model_keywords self (assemble_full_prompt self prompt) kwargs) kwargs
                 = Inr call_args"
    and ret: "invoke_model (model_service self) call_args w = (Inr resp, w')"
  shows "(\<forall>v. map_of (resp_attrs resp) ''data'' = Some v \<longrightarrow>
            fst (forward invoke_model self prompt kwargs w) = Inr v) \<and>
         (map_of (resp_attrs resp) ''data'' = None \<longrightarrow>
            fst (forward invoke_model self prompt kwargs w) = Inr (PStr (str_of resp)))"
  using call ret by (simp add: forward_def hasattr_def dict_get_def)

text \<open>
  Two runs of C8: a response with a \<^verbatim>\<open>data\<close> attribute gives that attribute, a
  response without one gives its string conversion.
\<close>

theorem forward_returns_data_or_str_witness:
  "keyword_call_args (invoke_model_keywords demo_module (assemble_full_prompt demo_module ''hi'') []) []
     = Inr [(''model_id'', PStr ''openai:gpt-4o''), (''prompt'', PStr ''hi''),
            (''temperature'', PFloat 1.0), (''max_tokens'', PNone)] \<and>
   map_of (resp_attrs structured_response) ''data'' = Some (PStr ''4'') \<and>
   fst (forward (recording_service structured_response) demo_module ''hi'' [] []) = Inr (PStr ''4'') \<and>
   map_of (resp_attrs plain_response) ''data'' = None \<and>
   fst (forward (recording_service plain_response) demo_module ''hi'' [] []) = Inr (PStr ''Echo: hi'')"
proof -
  let ?args = "[(''model_id'', PStr ''openai:gpt-4o''), (''prompt'', PStr ''hi''),
            (''temperature'', PFloat 1.0), (''max_tokens'', PNone)]"
  have e: "assemble_full_prompt demo_module ''hi'' = ''hi''"
    by (simp add: assemble_full_prompt_def strip_eval demo_defs)
  have call: "keyword_call_args
                (invoke_model_keywords demo_module (assemble_full_prompt demo_module ''hi'') []) []
              = Inr ?args"
    by (simp add: e demo_module_config keyword_call_args_def invoke_model_keywords_def
        dict_get_def max_tokens_val_def)
  have r1: "recording_service structured_response (model_service demo_module) ?args []
             = (Inr structured_response, [?args])"
    by (simp add: recording_service_def)
  have r2: "recording_service plain_response (model_service demo_module) ?args []
             = (Inr plain_response, [?args])"
    by (simp add: recording_service_def)
  have d1: "map_of (resp_attrs structured_response) ''data'' = Some (PStr ''4'')"
    by (simp add: structured_response_def)
  have d2: "map_of (resp_attrs plain_response) ''data'' = None"
    by (simp add: plain_response_def)
  have s2: "str_of plain_response = ''Echo: hi''"
    by (simp add: str_of_def plain_response_def)
  from forward_returns_data_or_str
         [where invoke_model = "recording_service structured_response", OF call r1] d1
  have a: "fst (forward (recording_service structured_response) demo_module ''hi'' [] [])
           = Inr (PStr ''4'')"
    by blast
  from forward_returns_data_or_str
         [where invoke_model = "recording_service plain_response", OF call r2] d2 s2
  have b: "fst (forward (recording_service plain_response) demo_module ''hi'' [] [])
           = Inr (PStr ''Echo: hi'')"
    by simp
  from call d1 a d2 b show ?thesis by blast
qed

section \<open>Configuration and construction\<close>

text \<open>
  C7: constructing an \<^verbatim>\<open>LMModuleConfig\<close> with a temperature in the closed interval
  from 0 to 5 succeeds and stores that temperature; with a temperature below 0 or above
  5 it fails with a validation error on the field \<^verbatim>\<open>temperature\<close>. The other
  arguments do not matter.
\<close>

theorem LMModuleConfig_temperature_bounds:
  "(0 \<le> t \<and> t \<le> 5 \<longrightarrow>
      (\<exists>c. LMModuleConfig_new m (Some t) mt cp pe = Inr c \<and> temperature c = t)) \<and>
   (t < 0 \<or> 5 < t \<longrightarrow>
      (\<exists>msg. LMModuleConfig_new m (Some t) mt cp pe = Inl (ValidationError ''temperature'' msg)))"
  by (auto simp: LMModuleConfig_new_def validate_float_def temperature_field_def)

text \<open>C7 at both endpoints, inside the interval, and just outside it on each side.\<close>

theorem LMModuleConfig_temperature_bounds_witness:
  "(\<exists>c. LMModuleConfig_new None (Some 0) None None None = Inr c \<and> temperature c = 0) \<and>
   (\<exists>c. LMModuleConfig_new None (Some 5) None None None = Inr c \<and> temperature c = 5) \<and>
   (\<exists>c. LMModuleConfig_new None (Some 0.7) None None None = Inr c \<and> temperature c = 0.7) \<and>
   (\<exists>msg. LMModuleConfig_new None (Some (- 0.1)) None None None
             = Inl (ValidationError ''temperature'' msg)) \<and>
   (\<exists>msg. LMModuleConfig_new None (Some 5.1) None None None
             = Inl (ValidationError ''temperature'' msg))"
  using LMModuleConfig_temperature_bounds [of 0 None None None None]
    LMModuleConfig_temperature_bounds [of 5 None None None None]
    LMModuleConfig_temperature_bounds [of "0.7" None None None None]
    LMModuleConfig_temperature_bounds [of "- 0.1" None None None None]
    LMModuleConfig_temperature_bounds [of "5.1" None None None None]
  by simp

text \<open>
  C5: \<^verbatim>\<open>get_default_model_service\<close> returns the same service whatever its two
  arguments are: its registry is the module-level \<^verbatim>\<open>GLOBAL_MODEL_REGISTRY\<close> and its
  usage service is the object that the call itself allocates, which did not exist
  before the call and so is not one of the arguments.
\<close>

theorem get_default_model_service_ignores_arguments:
  "get_default_model_service registry usage_service s =
     (\<lparr>ms_registry = GLOBAL_MODEL_REGISTRY s, ms_usage_service = PObj (allocated s)\<rparr>,
      s\<lparr>allocated := Suc (allocated s)\<rparr>) \<and>
   get_default_model_service registry usage_service s
     = get_default_model_service registry' usage_service' s \<and>
   call_get_default_model_service [registry, usage_service] [] s
     = Inr (\<lparr>ms_registry = GLOBAL_MODEL_REGISTRY s, ms_usage_service = PObj (allocated s)\<rparr>,
            s\<lparr>allocated := Suc (allocated s)\<rparr>) \<and>
   fresh_object s (ms_usage_service (fst (get_default_model_service registry usage_service s)))"
  by (simp add: get_default_model_service_def UsageService_new_def
      call_get_default_model_service_def bind_arguments_def fresh_object_def)

text \<open>
  C9: for every config and state, constructing an \<^verbatim>\<open>LMModule\<close> without a model
  service raises \<^verbatim>\<open>TypeError\<close> for the two missing arguments \<^verbatim>\<open>registry\<close> and
  \<^verbatim>\<open>usage_service\<close> of \<^verbatim>\<open>get_default_model_service\<close>; the instance is left as it
  was, so a blank instance has no attribute set, no module is produced, and the state
  is unchanged.
\<close>

theorem LMModule_init_without_service_raises:
  "LMModule_init self config_arg None s
     = (Some (TypeError_missing_arguments [''registry'', ''usage_service'']), self, s) \<and>
   LMModule_init blank_instance config_arg None s
     = (Some (TypeError_missing_arguments [''registry'', ''usage_service'']),
        \<lparr>attr_config = None, attr_model_service = None, attr_logger = None\<rparr>, s) \<and>
   LMModule_new config_arg None s
     = (Inl (TypeError_missing_arguments [''registry'', ''usage_service'']), s)"
  by (simp add: LMModule_init_def LMModule_new_def call_get_default_model_service_def
      bind_arguments_def blank_instance_def)

end
